theory Spec2Isabelle
  imports Complex_Main
begin

section \<open>Python values\<close>

text \<open>
  The notebooks pass numbers through to the libraries and use them in one computation,
  \<^verbatim>\<open>int(width * hires_scale)\<close>. A Python number is an unbounded integer or a float;
  a float is idealised as a rational. \<open>py_mul\<close> is \<^verbatim>\<open>w * s\<close> for an integer
  \<open>w\<close>, \<open>py_int\<close> is \<^verbatim>\<open>int(x)\<close>, which truncates toward zero.
\<close>

datatype pynum = PyInt int | PyFloat rat

fun py_mul :: "int \<Rightarrow> pynum \<Rightarrow> pynum" where
  "py_mul w (PyInt k) = PyInt (w * k)"
| "py_mul w (PyFloat r) = PyFloat (of_int w * r)"

fun py_int :: "pynum \<Rightarrow> int" where
  "py_int (PyInt k) = k"
| "py_int (PyFloat r) = (if 0 \<le> r then \<lfloor>r\<rfloor> else \<lceil>r\<rceil>)"

text \<open>An exception raised by Python or by a library, with its class name.\<close>

datatype error = Raised string

section \<open>Objects of the external libraries\<close>

text \<open>
  The scheduler classes imported from diffusers; a scheduler object is a class
  instantiated from a configuration (\<^verbatim>\<open>Cls.from_config(config)\<close>).
\<close>

datatype sched_class =
    EulerDiscreteScheduler
  | EulerAncestralDiscreteScheduler
  | DPMSolverMultistepScheduler
  | DDIMScheduler

datatype (configs: 'c) scheduler = from_config sched_class (config: 'c)

datatype pipe_class = StableDiffusionXLPipeline | StableDiffusionPipeline

text \<open>
  A pipeline object, with the attributes the notebooks read or assign:
  \<^verbatim>\<open>pipe.scheduler\<close>, \<^verbatim>\<open>pipe.tokenizer.model_max_length\<close>,
  \<^verbatim>\<open>pipe.tokenizer_2.model_max_length\<close> and the device it was moved to.
\<close>

record 'c pipeline =
  pretrained :: string
  device :: string
  scheduler :: "'c scheduler"
  tokenizer_model_max_length :: int
  tokenizer_2_model_max_length :: int

text \<open>A PIL image: its size and its pixel data.\<close>

record 'x image =
  img_width :: int
  img_height :: int
  img_data :: 'x


datatype resample = LANCZOS

text \<open>The keyword arguments of \<^verbatim>\<open>from_pretrained\<close>.\<close>

record load_opts =
  torch_dtype :: "string option"
  variant :: "string option"
  use_safetensors :: "bool option"

text \<open>The arguments of a pipeline call \<^verbatim>\<open>pipe(...)\<close>, other than the generator.\<close>

record pipe_kwargs =
  kw_prompt :: string
  kw_negative_prompt :: "string option"
  kw_num_inference_steps :: int
  kw_guidance_scale :: pynum
  kw_width :: int
  kw_height :: int

text \<open>
  The libraries are a parameter of the model. \<open>'c\<close> is a scheduler configuration,
  \<open>'g\<close> the state of a random generator, \<open>'x\<close> pixel data.
  \<^item> \<open>cuda_is_available\<close>: \<^verbatim>\<open>torch.cuda.is_available()\<close>;
  \<^item> \<open>load_pretrained\<close>: \<^verbatim>\<open>Cls.from_pretrained(model_id, **opts)\<close>;
  \<^item> \<open>manual_seed\<close>: the state of a generator seeded with the given seed;
  \<^item> \<open>denoise\<close>: \<^verbatim>\<open>pipe(**kwargs, generator=g).images[0]\<close>, with the
    generator state it leaves behind;
  \<^item> \<open>resize\<close>: \<^verbatim>\<open>image.resize(size, resample)\<close>.
\<close>

record ('c, 'g, 'x) library =
  cuda_is_available :: bool
  cuda_get_device_name :: string
  load_pretrained :: "pipe_class \<Rightarrow> string \<Rightarrow> load_opts \<Rightarrow> error + 'c pipeline"
  manual_seed :: "int \<Rightarrow> 'g"
  denoise :: "'c pipeline \<Rightarrow> pipe_kwargs \<Rightarrow> 'g \<Rightarrow> (error + 'x image) \<times> 'g"
  resize :: "'x image \<Rightarrow> int \<times> int \<Rightarrow> resample \<Rightarrow> error + 'x image"

section \<open>Observable effects\<close>

text \<open>The messages the notebooks print.\<close>

datatype message =
    CudaNotAvailable
  | CudaAvailable string
  | LoadingPipeline string
  | PipelineLoaded
  | UnknownScheduler string
  | GeneratingImage string
  | NegativePrompt string
  | ApplyingHiresFix pynum
  | GenerationComplete
  | UsingCustomUpscaler
  | SetupComplete
  | ModelLoadedOn string
  | ImageSavedTo string

text \<open>
  Every library call, every assignment to a pipeline attribute and every print is
  recorded, in program order. \<open>CallPipeline\<close> carries the pipeline object as it is at
  the call. What a caller-supplied upscaler does is recorded under \<open>ByUpscaler\<close>.
\<close>

datatype 'c event =
    Print message
  | QueryCuda
  | FromPretrained pipe_class string load_opts
  | MoveTo string
  | SetTokenizerLimits int int
  | SetScheduler "'c scheduler"
  | NewGenerator string int
  | SeedRandom int
  | SeedNumpy int
  | SeedTorch int
  | SeedCudaAll int
  | CallPipeline "'c pipeline" pipe_kwargs
  | Resize "int \<times> int" resample
  | Show
  | Save string
  | ByUpscaler "'c event"

text \<open>
  \<^verbatim>\<open>pipe.to(device)\<close> and \<^verbatim>\<open>torch.Generator(device)\<close>: torch raises when the
  device is \<^verbatim>\<open>"cuda"\<close> and CUDA is not available.
\<close>

definition pipeline_to ::
  "('c, 'g, 'x) library \<Rightarrow> 'c pipeline \<Rightarrow> string \<Rightarrow> (error + 'c pipeline) \<times> 'c event list" where
  "pipeline_to L p dev =
     (if dev = ''cuda'' \<and> \<not> cuda_is_available L then Inl (Raised ''RuntimeError'')
      else Inr (p\<lparr>device := dev\<rparr>),
      [MoveTo dev])"

definition torch_Generator ::
  "('c, 'g, 'x) library \<Rightarrow> string \<Rightarrow> int \<Rightarrow> (error + 'g) \<times> 'c event list" where
  "torch_Generator L dev seed =
     (if dev = ''cuda'' \<and> \<not> cuda_is_available L then Inl (Raised ''RuntimeError'')
      else Inr (manual_seed L seed),
      [NewGenerator dev seed])"

definition image_resize ::
  "('c, 'g, 'x) library \<Rightarrow> 'x image \<Rightarrow> int \<times> int \<Rightarrow> resample \<Rightarrow> (error + 'x image) \<times> 'c event list" where
  "image_resize L im sz f = (resize L im sz f, [Resize sz f])"

section \<open>Vim2.ipynb\<close>

definition check_cuda :: "('c, 'g, 'x) library \<Rightarrow> 'c event list" where
  "check_cuda L =
     (if \<not> cuda_is_available L then [QueryCuda, Print CudaNotAvailable]
      else [QueryCuda, Print (CudaAvailable (cuda_get_device_name L))])"

definition MODEL_ID :: string where
  "MODEL_ID = ''Laxhar/noobai-XL-1.1''"

definition fp16_opts :: load_opts where
  "fp16_opts = \<lparr>torch_dtype = Some ''float16'', variant = Some ''fp16'', use_safetensors = Some True\<rparr>"

text \<open>The dictionary is an association list, looked up with \<open>map_of\<close>.\<close>

definition create_scheduler_dict ::
  "('c, 'g, 'x) library \<Rightarrow> (error + (string \<times> 'c scheduler) list) \<times> 'c event list" where
  "create_scheduler_dict L =
     (case load_pretrained L StableDiffusionXLPipeline MODEL_ID fp16_opts of
        Inl e \<Rightarrow> Inl e
      | Inr temp_pipe \<Rightarrow>
          (let default_scheduler_config = config (scheduler temp_pipe)
           in Inr [(''euler'', from_config EulerDiscreteScheduler default_scheduler_config),
                   (''euler_ancestral'', from_config EulerAncestralDiscreteScheduler default_scheduler_config),
                   (''dpm'', from_config DPMSolverMultistepScheduler default_scheduler_config),
                   (''ddim'', from_config DDIMScheduler default_scheduler_config)]),
      [FromPretrained StableDiffusionXLPipeline MODEL_ID fp16_opts])"

text \<open>
  \<open>set_scheduler\<close> mutates the pipeline it is given; the model returns the updated
  pipeline. \<^verbatim>\<open>SCHEDULERS["euler"]\<close> raises KeyError on a dictionary without that key.
\<close>

definition set_scheduler ::
  "(string \<times> 'c scheduler) list \<Rightarrow> 'c pipeline \<Rightarrow> string \<Rightarrow> (error + 'c pipeline) \<times> 'c event list" where
  "set_scheduler SCHEDULERS p scheduler_name =
     (case map_of SCHEDULERS scheduler_name of
        Some s \<Rightarrow> (Inr (p\<lparr>scheduler := s\<rparr>), [SetScheduler s])
      | None \<Rightarrow>
          (case map_of SCHEDULERS ''euler'' of
             Some s \<Rightarrow> (Inr (p\<lparr>scheduler := s\<rparr>),
                        [Print (UnknownScheduler scheduler_name), SetScheduler s])
           | None \<Rightarrow> (Inl (Raised ''KeyError''), [Print (UnknownScheduler scheduler_name)])))"

definition load_pipeline ::
  "('c, 'g, 'x) library \<Rightarrow> (string \<times> 'c scheduler) list \<Rightarrow> string \<Rightarrow> string
     \<Rightarrow> (error + 'c pipeline) \<times> 'c event list" where
  "load_pipeline L SCHEDULERS model_id scheduler_choice =
     (let t0 = [Print (LoadingPipeline model_id),
                FromPretrained StableDiffusionXLPipeline model_id fp16_opts]
      in case load_pretrained L StableDiffusionXLPipeline model_id fp16_opts of
           Inl e \<Rightarrow> (Inl e, t0)
         | Inr p0 \<Rightarrow>
             (case pipeline_to L p0 ''cuda'' of
                (Inl e, t1) \<Rightarrow> (Inl e, t0 @ t1)
              | (Inr p1, t1) \<Rightarrow>
                  (let p2 = p1\<lparr>tokenizer_model_max_length := 1000000\<rparr>;
                       p3 = p2\<lparr>tokenizer_2_model_max_length := 1000000\<rparr>;
                       t2 = [SetTokenizerLimits 1000000 1000000]
                   in case set_scheduler SCHEDULERS p3 scheduler_choice of
                        (Inl e, t3) \<Rightarrow> (Inl e, t0 @ t1 @ t2 @ t3)
                      | (Inr p4, t3) \<Rightarrow> (Inr p4, t0 @ t1 @ t2 @ t3 @ [Print PipelineLoaded]))))"

text \<open>
  The parameters of Vim2's \<open>generate_image\<close>. A caller-supplied upscaler is a function
  of the image and the scale factor, with what it does and what it returns or raises.
\<close>

record ('c, 'x) gen_args =
  prompt :: string
  negative_prompt :: "string option"
  scheduler_name :: string
  num_inference_steps :: int
  seed :: int
  guidance_scale :: pynum
  width :: int
  height :: int
  hires_fix :: bool
  hires_scale :: pynum
  upscaler_func :: "('x image \<Rightarrow> pynum \<Rightarrow> (error + 'x image) \<times> 'c event list) option"

text \<open>
  \<open>vim2_generate_image\<close> is \<open>generate_image\<close> of Vim2.ipynb. It works on the global
  \<open>pipe\<close>, which \<open>set_scheduler\<close> mutates: the model takes the pipeline and returns it
  with the result and the effects.
\<close>

definition vim2_generate_image ::
  "('c, 'g, 'x) library \<Rightarrow> (string \<times> 'c scheduler) list \<Rightarrow> ('c, 'x) gen_args \<Rightarrow> 'c pipeline
     \<Rightarrow> (error + 'x image) \<times> 'c pipeline \<times> 'c event list" where
  "vim2_generate_image L SCHEDULERS a pipe0 =
     (let t0 = Print (GeneratingImage (prompt a)) #
               (case negative_prompt a of
                  None \<Rightarrow> []
                | Some n \<Rightarrow> if n \<noteq> [] then [Print (NegativePrompt n)] else [])
      in case set_scheduler SCHEDULERS pipe0 (scheduler_name a) of
           (Inl e, t1) \<Rightarrow> (Inl e, pipe0, t0 @ t1)
         | (Inr pipe1, t1) \<Rightarrow>
             (case torch_Generator L ''cuda'' (seed a) of
                (Inl e, t2) \<Rightarrow> (Inl e, pipe1, t0 @ t1 @ t2)
              | (Inr generator, t2) \<Rightarrow>
                  (let kwargs = \<lparr>kw_prompt = prompt a,
                                 kw_negative_prompt = negative_prompt a,
                                 kw_num_inference_steps = num_inference_steps a,
                                 kw_guidance_scale = guidance_scale a,
                                 kw_width = width a,
                                 kw_height = height a\<rparr>;
                       t3 = [CallPipeline pipe1 kwargs]
                   in case fst (denoise L pipe1 kwargs generator) of
                        Inl e \<Rightarrow> (Inl e, pipe1, t0 @ t1 @ t2 @ t3)
                      | Inr img \<Rightarrow>
                          if hires_fix a then
                            (let t4 = [Print (ApplyingHiresFix (hires_scale a))]
                             in case (case upscaler_func a of
                                        Some f \<Rightarrow>
                                          (case f img (hires_scale a) of
                                             (r, tu) \<Rightarrow> (r, map ByUpscaler tu))
                                      | None \<Rightarrow>
                                          (let new_width = py_int (py_mul (width a) (hires_scale a));
                                               new_height = py_int (py_mul (height a) (hires_scale a))
                                           in image_resize L img (new_width, new_height) LANCZOS)) of
                                  (Inl e, t5) \<Rightarrow> (Inl e, pipe1, t0 @ t1 @ t2 @ t3 @ t4 @ t5)
                                | (Inr img', t5) \<Rightarrow>
                                    (Inr img', pipe1,
                                     t0 @ t1 @ t2 @ t3 @ t4 @ t5 @ [Print GenerationComplete]))
                          else (Inr img, pipe1, t0 @ t1 @ t2 @ t3 @ [Print GenerationComplete]))))"


text \<open>
  The notebook's top level: \<open>check_cuda()\<close>, \<open>SCHEDULERS = create_scheduler_dict()\<close>,
  \<open>pipe = load_pipeline(MODEL_ID, scheduler_choice="euler")\<close> and the closing print.
  An exception ends the run.
\<close>

definition vim2_setup ::
  "('c, 'g, 'x) library \<Rightarrow> (error + (string \<times> 'c scheduler) list \<times> 'c pipeline) \<times> 'c event list" where
  "vim2_setup L =
     (let t0 = check_cuda L
      in case create_scheduler_dict L of
           (Inl e, t1) \<Rightarrow> (Inl e, t0 @ t1)
         | (Inr SCHEDULERS, t1) \<Rightarrow>
             (case load_pipeline L SCHEDULERS MODEL_ID ''euler'' of
                (Inl e, t2) \<Rightarrow> (Inl e, t0 @ t1 @ t2)
              | (Inr pipe, t2) \<Rightarrow> (Inr (SCHEDULERS, pipe), t0 @ t1 @ t2 @ [Print SetupComplete])))"

text \<open>
  A session after the setup: the user calls \<open>generate_image\<close> any number of times. A call
  that raises leaves the global \<open>pipe\<close> as it was at the exception, and the next call
  runs on it. The session returns the result of each call, the final \<open>pipe\<close> and the
  effects.
\<close>

fun vim2_session ::
  "('c, 'g, 'x) library \<Rightarrow> (string \<times> 'c scheduler) list \<Rightarrow> ('c, 'x) gen_args list \<Rightarrow> 'c pipeline
     \<Rightarrow> (error + 'x image) list \<times> 'c pipeline \<times> 'c event list" where
  "vim2_session L SCHEDULERS [] pipe0 = ([], pipe0, [])"
| "vim2_session L SCHEDULERS (a # as) pipe0 =
     (case vim2_generate_image L SCHEDULERS a pipe0 of
        (r, pipe1, t) \<Rightarrow>
          (case vim2_session L SCHEDULERS as pipe1 of
             (rs, pipe2, ts) \<Rightarrow> (r # rs, pipe2, t @ ts)))"


section \<open>Noobai-XL-1.1\_Generator.ipynb\<close>




definition model_id :: string where
  "model_id = ''Laxhar/noobai-XL-1.1''"

definition no_opts :: load_opts where
  "no_opts = \<lparr>torch_dtype = None, variant = None, use_safetensors = None\<rparr>"

text \<open>The cell that loads the model; it defines \<open>device\<close> and \<open>pipe\<close>.\<close>

definition noobai_load ::
  "('c, 'g, 'x) library \<Rightarrow> (error + string \<times> 'c pipeline) \<times> 'c event list" where
  "noobai_load L =
     (let dev = (if cuda_is_available L then ''cuda'' else ''cpu'');
          t0 = [QueryCuda, FromPretrained StableDiffusionPipeline model_id no_opts]
      in case load_pretrained L StableDiffusionPipeline model_id no_opts of
           Inl e \<Rightarrow> (Inl e, t0)
         | Inr p0 \<Rightarrow>
             (case pipeline_to L p0 dev of
                (Inl e, t1) \<Rightarrow> (Inl e, t0 @ t1)
              | (Inr p1, t1) \<Rightarrow> (Inr (dev, p1), t0 @ t1 @ [Print (ModelLoadedOn dev)])))"








section \<open>Reading the effects\<close>

text \<open>
  The pipeline calls made by the notebook's own code, in order: the pipeline object at
  the call and the arguments it was called with.
\<close>

fun pipeline_calls :: "'c event list \<Rightarrow> ('c pipeline \<times> pipe_kwargs) list" where
  "pipeline_calls [] = []"
| "pipeline_calls (CallPipeline p kw # es) = (p, kw) # pipeline_calls es"
| "pipeline_calls (e # es) = pipeline_calls es"

text \<open>The two tokenizers' \<^verbatim>\<open>model_max_length\<close> of a pipeline.\<close>

definition model_max_lengths :: "'c pipeline \<Rightarrow> int \<times> int" where
  "model_max_lengths p = (tokenizer_model_max_length p, tokenizer_2_model_max_length p)"




text \<open>
  The steps of the pipeline the specification names: configure the device, load the
  pretrained weights, select a sampler, run the denoising steps, resize the result, save
  or display it. \<open>stage_of\<close> gives the step an effect belongs to, if any: checking CUDA
  and moving the pipeline configure the device, \<^verbatim>\<open>from_pretrained\<close> loads the weights,
  assigning \<^verbatim>\<open>pipe.scheduler\<close> selects the sampler, the pipeline call runs the
  denoising, and what a caller-supplied upscaler does other than printing is part of the
  resize.
\<close>

datatype stage = ConfigureDevice | LoadWeights | SelectSampler | Denoise | ResizeResult | SaveOrDisplay

fun stage_of :: "'c event \<Rightarrow> stage option" where
  "stage_of QueryCuda = Some ConfigureDevice"
| "stage_of (MoveTo dev) = Some ConfigureDevice"
| "stage_of (FromPretrained cls m opts) = Some LoadWeights"
| "stage_of (SetScheduler s) = Some SelectSampler"
| "stage_of (CallPipeline p kw) = Some Denoise"
| "stage_of (Resize sz f) = Some ResizeResult"
| "stage_of (ByUpscaler (Print m)) = None"
| "stage_of (ByUpscaler e) = Some ResizeResult"
| "stage_of Show = Some SaveOrDisplay"
| "stage_of (Save path) = Some SaveOrDisplay"
| "stage_of e = None"

fun stages :: "'c event list \<Rightarrow> stage list" where
  "stages [] = []"
| "stages (e # es) = (case stage_of e of None \<Rightarrow> stages es | Some s \<Rightarrow> s # stages es)"



section \<open>A small library instance\<close>

text \<open>
  An instance of the library parameter, on which the theorems below are exercised:
  generator states are integers, pixel data is the prompt with the generator state.
  As in diffusers (\<^verbatim>\<open>height = height or default\<close>), its pipeline call takes a width
  or height of 0 for the default size, 1024, and raises unless both dimensions are
  positive multiples of 8; as in PIL, its resize raises on an empty size.
\<close>

definition sample_library :: "(nat, int, string \<times> int) library" where
  "sample_library =
     \<lparr>cuda_is_available = True,
      cuda_get_device_name = ''Tesla T4'',
      load_pretrained = (\<lambda>cls m opts.
         Inr \<lparr>pretrained = m, device = ''cpu'',
              scheduler = from_config EulerDiscreteScheduler 0,
              tokenizer_model_max_length = 77, tokenizer_2_model_max_length = 77\<rparr>),
      manual_seed = (\<lambda>s. s),
      denoise = (\<lambda>p kw g.
         (let w = (if kw_width kw = 0 then 1024 else kw_width kw);
              h = (if kw_height kw = 0 then 1024 else kw_height kw)
          in if 0 < w \<and> 0 < h \<and> w mod 8 = 0 \<and> h mod 8 = 0
             then Inr \<lparr>img_width = w, img_height = h, img_data = (kw_prompt kw, g)\<rparr>
             else Inl (Raised ''ValueError''),
          g + 1)),
      resize = (\<lambda>im sz f.
         if fst sz < 1 \<or> snd sz < 1 then Inl (Raised ''ValueError'')
         else Inr (im\<lparr>img_width := fst sz, img_height := snd sz\<rparr>))\<rparr>"

definition sample_schedulers :: "(string \<times> nat scheduler) list" where
  "sample_schedulers =
     [(''euler'', from_config EulerDiscreteScheduler 0),
      (''euler_ancestral'', from_config EulerAncestralDiscreteScheduler 0),
      (''dpm'', from_config DPMSolverMultistepScheduler 0),
      (''ddim'', from_config DDIMScheduler 0)]"

definition sample_pipe :: "nat pipeline" where
  "sample_pipe =
     \<lparr>pretrained = MODEL_ID, device = ''cuda'',
      scheduler = from_config EulerDiscreteScheduler 0,
      tokenizer_model_max_length = 1000000, tokenizer_2_model_max_length = 1000000\<rparr>"

definition sample_args :: "(nat, string \<times> int) gen_args" where
  "sample_args =
     \<lparr>prompt = ''A futuristic city skyline at sunset, ultrarealistic'',
      negative_prompt = Some ''blurry, low quality'',
      scheduler_name = ''euler_ancestral'',
      num_inference_steps = 25,
      seed = 42,
      guidance_scale = PyFloat 8,
      width = 512,
      height = 512,
      hires_fix = True,
      hires_scale = PyInt 2,
      upscaler_func = None\<rparr>"



section \<open>Facts about the model\<close>

lemma created_dict:
  assumes "fst (create_scheduler_dict L) = Inr S"
  shows "\<exists>c. S = [(''euler'', from_config EulerDiscreteScheduler c),
                   (''euler_ancestral'', from_config EulerAncestralDiscreteScheduler c),
                   (''dpm'', from_config DPMSolverMultistepScheduler c),
                   (''ddim'', from_config DDIMScheduler c)]"
  using assms unfolding create_scheduler_dict_def
  by (auto simp: Let_def split: sum.splits)


lemma set_scheduler_known:
  "map_of S n = Some s \<Longrightarrow> set_scheduler S p n = (Inr (p\<lparr>scheduler := s\<rparr>), [SetScheduler s])"
  by (simp add: set_scheduler_def)


lemma pipeline_calls_append [simp]:
  "pipeline_calls (xs @ ys) = pipeline_calls xs @ pipeline_calls ys"
  by (induction xs rule: pipeline_calls.induct) simp_all

lemma pipeline_calls_ByUpscaler [simp]: "pipeline_calls (map ByUpscaler t) = []"
  by (induction t) simp_all

lemma pipeline_calls_set_scheduler [simp]: "pipeline_calls (snd (set_scheduler S p n)) = []"
  by (simp add: set_scheduler_def split: option.splits)



lemma vim2_generate_image_pipe:
  "fst (snd (vim2_generate_image L S a p)) =
     (case fst (set_scheduler S p (scheduler_name a)) of Inl e \<Rightarrow> p | Inr p1 \<Rightarrow> p1)"
  unfolding vim2_generate_image_def torch_Generator_def image_resize_def
  by (auto simp: Let_def split: prod.splits sum.splits option.splits)

lemma vim2_generate_image_calls:
  "pipeline_calls (snd (snd (vim2_generate_image L S a p))) =
     (case fst (set_scheduler S p (scheduler_name a)) of
        Inl e \<Rightarrow> []
      | Inr p1 \<Rightarrow>
          if cuda_is_available L
          then [(p1, \<lparr>kw_prompt = prompt a, kw_negative_prompt = negative_prompt a,
                      kw_num_inference_steps = num_inference_steps a,
                      kw_guidance_scale = guidance_scale a,
                      kw_width = width a, kw_height = height a\<rparr>)]
          else [])"
proof -
  have *: "pipeline_calls t = []" if "set_scheduler S p (scheduler_name a) = (r, t)" for r t
    using pipeline_calls_set_scheduler [of S p "scheduler_name a"] that by simp
  show ?thesis
    unfolding vim2_generate_image_def torch_Generator_def image_resize_def
    by (auto simp: Let_def * split: prod.splits sum.splits option.splits)
qed

lemma set_scheduler_cases:
  "(\<exists>s. fst (set_scheduler S p n) = Inr (p\<lparr>scheduler := s\<rparr>))
   \<or> fst (set_scheduler S p n) = Inl (Raised ''KeyError'')"
  by (auto simp: set_scheduler_def split: option.splits)

lemma set_scheduler_result:
  "set_scheduler S p n = (Inr p', t) \<Longrightarrow> \<exists>s. p' = p\<lparr>scheduler := s\<rparr>"
  by (auto simp: set_scheduler_def split: option.splits)


lemma vim2_generate_image_pipe_cases:
  "\<exists>s. fst (snd (vim2_generate_image L S a p)) = p\<lparr>scheduler := s\<rparr>"
proof -
  have id: "p = p\<lparr>scheduler := scheduler p\<rparr>" by simp
  from set_scheduler_cases [of S p "scheduler_name a"] show ?thesis
  proof
    assume "\<exists>s. fst (set_scheduler S p (scheduler_name a)) = Inr (p\<lparr>scheduler := s\<rparr>)"
    then show ?thesis by (auto simp: vim2_generate_image_pipe)
  next
    assume "fst (set_scheduler S p (scheduler_name a)) = Inl (Raised ''KeyError'')"
    then have "fst (snd (vim2_generate_image L S a p)) = p"
      by (simp add: vim2_generate_image_pipe)
    with id show ?thesis by metis
  qed
qed


lemma vim2_generate_image_calls_lengths:
  "(q, kw) \<in> set (pipeline_calls (snd (snd (vim2_generate_image L S a p)))) \<Longrightarrow>
   model_max_lengths q = model_max_lengths p"
  using set_scheduler_cases [of S p "scheduler_name a"]
  by (auto simp: vim2_generate_image_calls model_max_lengths_def split: if_splits)

lemma vim2_session_Cons:
  "fst (vim2_session L S (a # as) p) =
     fst (vim2_generate_image L S a p)
       # fst (vim2_session L S as (fst (snd (vim2_generate_image L S a p))))"
  "fst (snd (vim2_session L S (a # as) p)) =
     fst (snd (vim2_session L S as (fst (snd (vim2_generate_image L S a p)))))"
  "snd (snd (vim2_session L S (a # as) p)) =
     snd (snd (vim2_generate_image L S a p))
       @ snd (snd (vim2_session L S as (fst (snd (vim2_generate_image L S a p)))))"
  by (auto split: prod.splits)

declare vim2_session.simps(2) [simp del]

lemma vim2_session_pipe_cases:
  "\<exists>s. fst (snd (vim2_session L S as p)) = p\<lparr>scheduler := s\<rparr>"
proof (induction as arbitrary: p)
  case Nil
  have "p = p\<lparr>scheduler := scheduler p\<rparr>" by simp
  then show ?case by (metis vim2_session.simps(1) fst_conv snd_conv)
next
  case (Cons a as)
  obtain s1 where 1: "fst (snd (vim2_generate_image L S a p)) = p\<lparr>scheduler := s1\<rparr>"
    using vim2_generate_image_pipe_cases by blast
  obtain s2 where 2: "fst (snd (vim2_session L S as (p\<lparr>scheduler := s1\<rparr>))) = p\<lparr>scheduler := s1, scheduler := s2\<rparr>"
    using Cons.IH [of "p\<lparr>scheduler := s1\<rparr>"] by auto
  have "fst (snd (vim2_session L S (a # as) p)) = p\<lparr>scheduler := s2\<rparr>"
    using 1 2 by (simp add: vim2_session_Cons)
  then show ?case by blast
qed

lemma vim2_session_calls_lengths:
  "(q, kw) \<in> set (pipeline_calls (snd (snd (vim2_session L S as p)))) \<Longrightarrow>
   model_max_lengths q = model_max_lengths p"
proof (induction as arbitrary: p)
  case Nil
  then show ?case by simp
next
  case (Cons a as)
  obtain s1 where 1: "fst (snd (vim2_generate_image L S a p)) = p\<lparr>scheduler := s1\<rparr>"
    using vim2_generate_image_pipe_cases by blast
  from Cons.prems have
    "(q, kw) \<in> set (pipeline_calls (snd (snd (vim2_generate_image L S a p))))
     \<or> (q, kw) \<in> set (pipeline_calls (snd (snd (vim2_session L S as (p\<lparr>scheduler := s1\<rparr>)))))"
    using 1 by (auto simp: vim2_session_Cons)
  then show ?case
  proof
    assume "(q, kw) \<in> set (pipeline_calls (snd (snd (vim2_generate_image L S a p))))"
    then show ?thesis by (rule vim2_generate_image_calls_lengths)
  next
    assume "(q, kw) \<in> set (pipeline_calls (snd (snd (vim2_session L S as (p\<lparr>scheduler := s1\<rparr>)))))"
    then have "model_max_lengths q = model_max_lengths (p\<lparr>scheduler := s1\<rparr>)" by (rule Cons.IH)
    then show ?thesis by (simp add: model_max_lengths_def)
  qed
qed

lemma load_pipeline_result:
  "fst (load_pipeline L S m c) = Inr p \<Longrightarrow>
   cuda_is_available L \<and> device p = ''cuda'' \<and> model_max_lengths p = (1000000, 1000000)"
  unfolding load_pipeline_def pipeline_to_def model_max_lengths_def
  by (auto simp: Let_def split: sum.splits prod.splits if_splits dest!: set_scheduler_result)

lemma load_pipeline_without_cuda:
  "\<not> cuda_is_available L \<Longrightarrow> \<exists>e. fst (load_pipeline L S m c) = Inl e"
  unfolding load_pipeline_def pipeline_to_def
  by (auto simp: Let_def split: sum.splits prod.splits)

lemma noobai_load_result:
  "fst (noobai_load L) = Inr (dev, q) \<Longrightarrow>
   dev = (if cuda_is_available L then ''cuda'' else ''cpu'') \<and> device q = dev"
  unfolding noobai_load_def pipeline_to_def
  by (auto simp: Let_def split: sum.splits prod.splits if_splits)


lemma stages_append [simp]: "stages (xs @ ys) = stages xs @ stages ys"
  by (induction xs) (simp_all split: option.splits)












text \<open>The library instance.\<close>

lemma sample_dict: "fst (create_scheduler_dict sample_library) = Inr sample_schedulers"
  by (simp add: create_scheduler_dict_def sample_library_def sample_schedulers_def MODEL_ID_def)









lemma sample_load_pipeline:
  "fst (load_pipeline sample_library sample_schedulers MODEL_ID ''euler'') = Inr sample_pipe"
  by (simp add: load_pipeline_def pipeline_to_def set_scheduler_def sample_library_def
        sample_schedulers_def sample_pipe_def)

lemma sample_noobai_load:
  "fst (noobai_load sample_library) =
     Inr (''cuda'', \<lparr>pretrained = model_id, device = ''cuda'',
                      scheduler = from_config EulerDiscreteScheduler 0,
                      tokenizer_model_max_length = 77, tokenizer_2_model_max_length = 77\<rparr>)"
  by (simp add: noobai_load_def pipeline_to_def sample_library_def Let_def)





section \<open>The claims\<close>



text \<open>
  C2. \<open>SCHEDULERS\<close> has exactly the four keys \<open>euler\<close>, \<open>euler_ancestral\<close>, \<open>dpm\<close> and
  \<open>ddim\<close>. For each of them \<open>set_scheduler\<close> assigns the scheduler stored under that
  key and changes no other field of the pipeline; the pipeline that \<open>generate_image\<close>
  leaves behind is the one it was given with that scheduler.
\<close>

theorem scheduler_selection:
  assumes "fst (create_scheduler_dict L) = Inr S"
      and "n \<in> {''euler'', ''euler_ancestral'', ''dpm'', ''ddim''}"
  shows "map fst S = [''euler'', ''euler_ancestral'', ''dpm'', ''ddim'']
       \<and> (\<exists>s. map_of S n = Some s
            \<and> set_scheduler S p n = (Inr (p\<lparr>scheduler := s\<rparr>), [SetScheduler s])
            \<and> fst (snd (vim2_generate_image L S (a\<lparr>scheduler_name := n\<rparr>) p)) = p\<lparr>scheduler := s\<rparr>)"
proof -
  from created_dict [OF assms(1)] obtain c where
    S: "S = [(''euler'', from_config EulerDiscreteScheduler c),
             (''euler_ancestral'', from_config EulerAncestralDiscreteScheduler c),
             (''dpm'', from_config DPMSolverMultistepScheduler c),
             (''ddim'', from_config DDIMScheduler c)]" by blast
  from assms(2) obtain s where s: "map_of S n = Some s"
    unfolding S by auto
  have 1: "set_scheduler S p n = (Inr (p\<lparr>scheduler := s\<rparr>), [SetScheduler s])"
    by (rule set_scheduler_known [OF s])
  have 2: "fst (snd (vim2_generate_image L S (a\<lparr>scheduler_name := n\<rparr>) p)) = p\<lparr>scheduler := s\<rparr>"
    by (simp add: vim2_generate_image_pipe 1)
  have "map fst S = [''euler'', ''euler_ancestral'', ''dpm'', ''ddim'']"
    unfolding S by simp
  with s 1 2 show ?thesis by blast
qed

theorem scheduler_selection_witness:
  "fst (create_scheduler_dict sample_library) = Inr sample_schedulers
   \<and> ''dpm'' \<in> {''euler'', ''euler_ancestral'', ''dpm'', ''ddim''}
   \<and> map fst sample_schedulers = [''euler'', ''euler_ancestral'', ''dpm'', ''ddim'']
   \<and> (\<exists>s. map_of sample_schedulers ''dpm'' = Some s
          \<and> set_scheduler sample_schedulers sample_pipe ''dpm'' =
               (Inr (sample_pipe\<lparr>scheduler := s\<rparr>), [SetScheduler s])
          \<and> fst (snd (vim2_generate_image sample_library sample_schedulers
                        (sample_args\<lparr>scheduler_name := ''dpm''\<rparr>) sample_pipe)) =
               sample_pipe\<lparr>scheduler := s\<rparr>)"
proof -
  have h: "''dpm'' \<in> {''euler'', ''euler_ancestral'', ''dpm'', ''ddim''}" by simp
  show ?thesis
    using scheduler_selection [OF sample_dict h, where p = sample_pipe and a = sample_args] sample_dict h
    by blast
qed











text \<open>
  C7. As stated the claim fails for Vim2 (see the counterexample below). What holds: in
  the Noobai notebook the pipeline ends up on \<open>cuda\<close> when CUDA is available and on
  \<open>cpu\<close> otherwise; Vim2's \<open>load_pipeline\<close> moves the pipeline to \<open>cuda\<close> whatever
  the availability, so a pipeline it returns is on \<open>cuda\<close> with CUDA available, and
  without CUDA it raises.
\<close>

theorem device_placement:
  "(fst (noobai_load L) = Inr (dev, q) \<longrightarrow>
      dev = (if cuda_is_available L then ''cuda'' else ''cpu'') \<and> device q = dev)
   \<and> (fst (load_pipeline L S m c) = Inr p \<longrightarrow> device p = ''cuda'' \<and> cuda_is_available L)
   \<and> (\<not> cuda_is_available L \<longrightarrow> (\<exists>e. fst (load_pipeline L S m c) = Inl e))"
  using noobai_load_result [of L dev q] load_pipeline_result [of L S m c p]
    load_pipeline_without_cuda [of L S m c]
  by blast

theorem device_placement_witness:
  "fst (noobai_load sample_library) =
     Inr (''cuda'', \<lparr>pretrained = model_id, device = ''cuda'',
                      scheduler = from_config EulerDiscreteScheduler 0,
                      tokenizer_model_max_length = 77, tokenizer_2_model_max_length = 77\<rparr>)
   \<and> fst (load_pipeline sample_library sample_schedulers MODEL_ID ''euler'') = Inr sample_pipe
   \<and> device sample_pipe = ''cuda'' \<and> cuda_is_available sample_library
   \<and> \<not> cuda_is_available (sample_library\<lparr>cuda_is_available := False\<rparr>)
   \<and> (\<exists>e. fst (load_pipeline (sample_library\<lparr>cuda_is_available := False\<rparr>)
                 sample_schedulers MODEL_ID ''euler'') = Inl e)"
  using device_placement [where L = sample_library and S = sample_schedulers and m = MODEL_ID
      and c = "''euler''" and p = sample_pipe and dev = "''cuda''"
      and q = "\<lparr>pretrained = model_id, device = ''cuda'',
                scheduler = from_config EulerDiscreteScheduler 0,
                tokenizer_model_max_length = 77, tokenizer_2_model_max_length = 77\<rparr>"]
    device_placement [where L = "sample_library\<lparr>cuda_is_available := False\<rparr>"
      and S = sample_schedulers and m = MODEL_ID and c = "''euler''"]
    sample_noobai_load sample_load_pipeline
  by simp

text \<open>
  C7, as stated, at a library without CUDA: Vim2's setup does not leave a pipeline on
  \<open>cpu\<close>, it raises.
\<close>

theorem vim2_without_cuda_counterexample:
  "fst (vim2_setup (sample_library\<lparr>cuda_is_available := False\<rparr>)) = Inl (Raised ''RuntimeError'')"
  by (simp add: vim2_setup_def create_scheduler_dict_def load_pipeline_def pipeline_to_def
        sample_library_def)



text \<open>
  C10. A pipeline returned by \<open>load_pipeline\<close> has \<open>model_max_length = 1000000\<close> on
  both tokenizers, and so has the pipeline at every pipeline call of every later
  \<open>generate_image\<close>, and the global \<open>pipe\<close> after them.
\<close>

theorem token_limits_lifted:
  assumes "fst (load_pipeline L S m c) = Inr p"
  shows "model_max_lengths p = (1000000, 1000000)
       \<and> (\<forall>(q, kw) \<in> set (pipeline_calls (snd (snd (vim2_session L S as p)))).
             model_max_lengths q = (1000000, 1000000))
       \<and> model_max_lengths (fst (snd (vim2_session L S as p))) = (1000000, 1000000)"
proof -
  from load_pipeline_result [OF assms] have p: "model_max_lengths p = (1000000, 1000000)"
    by simp
  have "model_max_lengths q = (1000000, 1000000)"
    if "(q, kw) \<in> set (pipeline_calls (snd (snd (vim2_session L S as p))))" for q kw
    using vim2_session_calls_lengths [OF that] p by simp
  moreover obtain s where "fst (snd (vim2_session L S as p)) = p\<lparr>scheduler := s\<rparr>"
    using vim2_session_pipe_cases by blast
  then have "model_max_lengths (fst (snd (vim2_session L S as p))) = (1000000, 1000000)"
    using p by (simp add: model_max_lengths_def)
  ultimately show ?thesis using p by auto
qed

theorem token_limits_lifted_witness:
  "fst (load_pipeline sample_library sample_schedulers MODEL_ID ''euler'') = Inr sample_pipe
   \<and> model_max_lengths sample_pipe = (1000000, 1000000)
   \<and> map (model_max_lengths \<circ> fst)
         (pipeline_calls (snd (snd (vim2_session sample_library sample_schedulers
            [sample_args, sample_args\<lparr>scheduler_name := ''ddim''\<rparr>] sample_pipe)))) =
       [(1000000, 1000000), (1000000, 1000000)]
   \<and> model_max_lengths (fst (snd (vim2_session sample_library sample_schedulers
                [sample_args, sample_args\<lparr>scheduler_name := ''ddim''\<rparr>] sample_pipe))) =
       (1000000, 1000000)"
proof -
  have calls: "length (pipeline_calls (snd (snd (vim2_session sample_library sample_schedulers
            [sample_args, sample_args\<lparr>scheduler_name := ''ddim''\<rparr>] sample_pipe)))) = 2"
    by (simp add: vim2_session_Cons vim2_generate_image_calls vim2_generate_image_pipe
          set_scheduler_def sample_schedulers_def sample_args_def sample_library_def)
  have all: "map f xs = [c, c]" if "length xs = 2" and "\<forall>x \<in> set xs. f x = c"
    for f :: "'a \<Rightarrow> 'b" and xs c
    using that by (cases xs; cases "tl xs") auto
  note t = token_limits_lifted [OF sample_load_pipeline,
      where as = "[sample_args, sample_args\<lparr>scheduler_name := ''ddim''\<rparr>]"]
  from t have "\<forall>x \<in> set (pipeline_calls (snd (snd (vim2_session sample_library sample_schedulers
            [sample_args, sample_args\<lparr>scheduler_name := ''ddim''\<rparr>] sample_pipe)))).
         (model_max_lengths \<circ> fst) x = (1000000, 1000000)"
    by auto
  from all [OF calls this] t sample_load_pipeline show ?thesis
    by (simp add: comp_def)
qed



end
